theory Spec2Isabelle
  imports Complex_Main "HOL-Library.AList"
begin

section \<open>Python values, exceptions and the standard library calls the code makes\<close>

text \<open>
  Python floats are modelled as real numbers: rounding, overflow and NaN of IEEE doubles
  are outside the model.  Configuration documents are JSON values as \<^verbatim>\<open>json.load\<close>
  returns them; a dict is an association list read with \<open>map_of\<close>.
\<close>

datatype pyval =
    PNone
  | PBool bool
  | PNum real
  | PStr string
  | PList "pyval list"
  | PDict "(string \<times> pyval) list"

datatype error = AttributeError | TypeError | ValueError

text \<open>\<^verbatim>\<open>d.get(key, default)\<close>: only a dict has the method.\<close>

fun dict_get :: "pyval \<Rightarrow> string \<Rightarrow> pyval \<Rightarrow> error + pyval" where
  "dict_get (PDict d) key dflt = Inr (case map_of d key of Some v \<Rightarrow> v | None \<Rightarrow> dflt)"
| "dict_get _ key dflt = Inl AttributeError"

text \<open>\<^verbatim>\<open>d[key] = value\<close> with a string key: only a dict takes it.\<close>

fun dict_set :: "pyval \<Rightarrow> string \<Rightarrow> pyval \<Rightarrow> error + pyval" where
  "dict_set (PDict d) key v = Inr (PDict (AList.update key v d))"
| "dict_set _ key v = Inl TypeError"

text \<open>Truth value of an object in a condition.\<close>

fun truthy :: "pyval \<Rightarrow> bool" where
  "truthy PNone = False"
| "truthy (PBool b) = b"
| "truthy (PNum x) = (x \<noteq> 0)"
| "truthy (PStr s) = (s \<noteq> [])"
| "truthy (PList xs) = (xs \<noteq> [])"
| "truthy (PDict d) = (d \<noteq> [])"

text \<open>A value used as a float operand; \<^verbatim>\<open>bool\<close> is a subclass of \<^verbatim>\<open>int\<close>.\<close>

fun as_float :: "pyval \<Rightarrow> error + real" where
  "as_float (PNum x) = Inr x"
| "as_float (PBool b) = Inr (if b then 1 else 0)"
| "as_float _ = Inl TypeError"

text \<open>
  A value used as a dict key: lists and dicts are unhashable, and \<^verbatim>\<open>True == 1\<close>,
  \<^verbatim>\<open>False == 0\<close> as keys.
\<close>

datatype pykey = KNone | KNum real | KStr string

fun hashable :: "pyval \<Rightarrow> error + pykey" where
  "hashable PNone = Inr KNone"
| "hashable (PBool b) = Inr (KNum (if b then 1 else 0))"
| "hashable (PNum x) = Inr (KNum x)"
| "hashable (PStr s) = Inr (KStr s)"
| "hashable (PList xs) = Inl TypeError"
| "hashable (PDict d) = Inl TypeError"

text \<open>
  \<^verbatim>\<open>math.pow(x, y)\<close>: a negative base with a non-integral exponent and a zero base
  with a negative exponent raise ValueError; \<^verbatim>\<open>pow(x, 0.0)\<close> is 1.0.
\<close>

definition math_pow :: "real \<Rightarrow> real \<Rightarrow> error + real" where
  "math_pow x y =
     (if x < 0 \<and> y \<notin> \<int> then Inl ValueError
      else if x = 0 \<and> y < 0 then Inl ValueError
      else Inr (if y = 0 then 1
                else if x = 0 then 0
                else if 0 < x then x powr y
                else x powi \<lfloor>y\<rfloor>))"

text \<open>A pure computation that may raise: continue with its value, or pass the exception on.\<close>

definition on_value :: "'e + 'a \<Rightarrow> ('a \<Rightarrow> 'e + 'b) \<Rightarrow> 'e + 'b" where
  "on_value r k = (case r of Inl e \<Rightarrow> Inl e | Inr v \<Rightarrow> k v)"

section \<open>keyboard\_processor.py\<close>

record KeyState =
  pressed :: bool
  press_time :: real
  release_time :: real
  hold_duration :: real
  key_value :: real

definition KeyState_init :: KeyState where
  "KeyState_init =
     \<lparr>pressed = False, press_time = 0, release_time = 0, hold_duration = 0, key_value = 0\<rparr>"

record processor =
  config :: pyval
  key_states :: "pykey \<rightharpoonup> KeyState"
  steering_value :: real
  throttle_value :: real
  brake_value :: real
  steering_smoothing :: real
  pedal_smoothing :: real

text \<open>
  The progressive curve of \<^verbatim>\<open>_calculate_key_value\<close>, as a function of the hold
  time \<^verbatim>\<open>current_time - state.press_time\<close>.
\<close>

definition hold_curve :: "real \<Rightarrow> real" where
  "hold_curve hold_time = (let curve = 1 - exp (- hold_time * 2) in min 1 curve)"

text \<open>
  \<^verbatim>\<open>_calculate_key_value\<close>; \<open>current_time\<close> is the reading \<^verbatim>\<open>time.time()\<close>
  returns in this call.  Looking an unhashable key up raises.
\<close>

definition calculate_key_value :: "real \<Rightarrow> pyval \<Rightarrow> processor \<Rightarrow> error + real" where
  "calculate_key_value current_time key self =
     on_value (hashable key) (\<lambda>k.
       Inr (case key_states self k of
              None \<Rightarrow> 0
            | Some state \<Rightarrow>
                if \<not> pressed state then 0
                else let hold_time = current_time - press_time state
                     in hold_curve hold_time))"

text \<open>\<^verbatim>\<open>_smooth_value\<close>; the smoothing argument is whatever the caller read.\<close>

definition smooth_value :: "real \<Rightarrow> real \<Rightarrow> pyval \<Rightarrow> real \<Rightarrow> error + real" where
  "smooth_value current target smoothing delta_time =
     (if \<bar>target - current\<bar> < 0.001 then Inr target
      else on_value (as_float smoothing) (\<lambda>s.
           on_value (math_pow s (delta_time * 60)) (\<lambda>pw.
           let rate = 1 - pw in Inr (current + (target - current) * rate))))"

text \<open>
  A method of the processor mutates the object and may raise: its result is the object
  as the call leaves it, with the exception if one was raised.  \<open>reading\<close> continues
  with a value just read, or raises with the object as it is; \<open>and_then\<close> runs the
  next statement unless the previous one raised.
\<close>

type_synonym outcome = "processor \<times> error option"

definition reading :: "error + 'a \<Rightarrow> processor \<Rightarrow> ('a \<Rightarrow> outcome) \<Rightarrow> outcome" where
  "reading r self k = (case r of Inl e \<Rightarrow> (self, Some e) | Inr v \<Rightarrow> k v)"

definition and_then :: "outcome \<Rightarrow> (processor \<Rightarrow> outcome) \<Rightarrow> outcome" where
  "and_then r k = (case r of (self, Some e) \<Rightarrow> (self, Some e) | (self, None) \<Rightarrow> k self)"

text \<open>\<^verbatim>\<open>_init_key_states\<close>: the four \<^verbatim>\<open>get\<close> calls, then the dict is built.\<close>

definition init_key_states :: "pyval \<Rightarrow> error + (pykey \<rightharpoonup> KeyState)" where
  "init_key_states cfg =
     on_value (dict_get cfg ''steering'' (PDict [])) (\<lambda>steering.
     on_value (dict_get cfg ''acceleration'' (PDict [])) (\<lambda>acceleration.
     on_value (dict_get steering ''left_key'' (PStr ''a'')) (\<lambda>left_key.
     on_value (dict_get steering ''right_key'' (PStr ''d'')) (\<lambda>right_key.
     on_value (dict_get acceleration ''accelerate_key'' (PStr ''w'')) (\<lambda>accelerate_key.
     on_value (dict_get acceleration ''brake_key'' (PStr ''s'')) (\<lambda>brake_key.
     on_value (hashable left_key) (\<lambda>k1.
     on_value (hashable right_key) (\<lambda>k2.
     on_value (hashable accelerate_key) (\<lambda>k3.
     on_value (hashable brake_key) (\<lambda>k4.
       Inr (Map.empty(k1 \<mapsto> KeyState_init, k2 \<mapsto> KeyState_init,
                      k3 \<mapsto> KeyState_init, k4 \<mapsto> KeyState_init))))))))))))"

text \<open>
  \<^verbatim>\<open>KeyboardProcessor.__init__\<close>.  Registering the hooks with the keyboard library
  (\<^verbatim>\<open>_setup_key_handlers\<close>) has no effect on the object and is left out.
\<close>

definition KeyboardProcessor_init :: "pyval \<Rightarrow> error + processor" where
  "KeyboardProcessor_init cfg =
     on_value (dict_get cfg ''keyboard_controls'' (PDict [])) (\<lambda>c.
     on_value (init_key_states c) (\<lambda>ks.
       Inr \<lparr>config = c, key_states = ks,
            steering_value = 0, throttle_value = 0, brake_value = 0,
            steering_smoothing = 0.8, pedal_smoothing = 0.7\<rparr>))"

text \<open>\<^verbatim>\<open>_key_pressed\<close> and \<^verbatim>\<open>_key_released\<close>, for an event named \<open>key\<close> at clock reading \<open>current_time\<close>.\<close>

definition key_pressed :: "pykey \<Rightarrow> real \<Rightarrow> processor \<Rightarrow> processor" where
  "key_pressed key current_time self =
     (case key_states self key of
        None \<Rightarrow> self
      | Some state \<Rightarrow>
          if \<not> pressed state
          then self\<lparr>key_states := (key_states self)(key \<mapsto>
                 state\<lparr>pressed := True, press_time := current_time, hold_duration := 0\<rparr>)\<rparr>
          else self)"

definition key_released :: "pykey \<Rightarrow> real \<Rightarrow> processor \<Rightarrow> processor" where
  "key_released key current_time self =
     (case key_states self key of
        None \<Rightarrow> self
      | Some state \<Rightarrow>
          self\<lparr>key_states := (key_states self)(key \<mapsto>
            state\<lparr>pressed := False, release_time := current_time,
                  hold_duration := current_time - press_time state\<rparr>)\<rparr>)"

text \<open>\<^verbatim>\<open>_update_steering\<close>; \<open>t_left\<close> and \<open>t_right\<close> are the two clock readings.\<close>

definition update_steering :: "real \<Rightarrow> real \<Rightarrow> real \<Rightarrow> processor \<Rightarrow> outcome" where
  "update_steering t_left t_right delta_time self =
     reading (dict_get (config self) ''steering'' (PDict [])) self (\<lambda>steering.
     reading (dict_get steering ''left_key'' (PStr ''a'')) self (\<lambda>left_key.
     reading (dict_get steering ''right_key'' (PStr ''d'')) self (\<lambda>right_key.
     reading (calculate_key_value t_left left_key self) self (\<lambda>left_value.
     reading (calculate_key_value t_right right_key self) self (\<lambda>right_value.
     let target_steering = right_value - left_value in
     reading (dict_get steering ''gradual_turn'' (PBool True)) self (\<lambda>gradual_turn.
     and_then
       (if truthy gradual_turn
        then reading (smooth_value (steering_value self) target_steering
                        (PNum (steering_smoothing self)) delta_time) self
               (\<lambda>v. (self\<lparr>steering_value := v\<rparr>, None))
        else (self\<lparr>steering_value := target_steering\<rparr>, None))
       (\<lambda>self.
          reading (dict_get steering ''return_to_center'' (PBool True)) self (\<lambda>return_to_center.
          if truthy return_to_center \<and> \<not> (left_value \<noteq> 0 \<or> right_value \<noteq> 0)
          then reading (dict_get steering ''center_speed'' (PNum 0.3)) self (\<lambda>center_speed.
               reading (smooth_value (steering_value self) 0 center_speed delta_time) self
                 (\<lambda>v. (self\<lparr>steering_value := v\<rparr>, None)))
          else (self, None)))))))))"

text \<open>\<^verbatim>\<open>_update_pedals\<close>.\<close>

definition update_pedals :: "real \<Rightarrow> real \<Rightarrow> real \<Rightarrow> processor \<Rightarrow> outcome" where
  "update_pedals t_accelerate t_brake delta_time self =
     reading (dict_get (config self) ''acceleration'' (PDict [])) self (\<lambda>acceleration.
     reading (dict_get acceleration ''accelerate_key'' (PStr ''w'')) self (\<lambda>accelerate_key.
     reading (dict_get acceleration ''brake_key'' (PStr ''s'')) self (\<lambda>brake_key.
     reading (calculate_key_value t_accelerate accelerate_key self) self (\<lambda>target_throttle.
     reading (calculate_key_value t_brake brake_key self) self (\<lambda>target_brake.
     reading (dict_get acceleration ''progressive_acceleration'' (PBool True)) self (\<lambda>progressive.
     if truthy progressive
     then reading (smooth_value (throttle_value self) target_throttle
                     (PNum (pedal_smoothing self)) delta_time) self (\<lambda>v.
          let self = self\<lparr>throttle_value := v\<rparr> in
          reading (smooth_value (brake_value self) target_brake
                     (PNum (pedal_smoothing self)) delta_time) self (\<lambda>v.
          (self\<lparr>brake_value := v\<rparr>, None)))
     else (self\<lparr>throttle_value := target_throttle, brake_value := target_brake\<rparr>, None)))))))"

text \<open>\<^verbatim>\<open>_apply_counter_steer\<close>, \<^verbatim>\<open>_apply_anti_spin\<close> and \<^verbatim>\<open>_apply_assists\<close>.\<close>

definition apply_counter_steer :: "processor \<Rightarrow> outcome" where
  "apply_counter_steer self =
     (if \<bar>steering_value self\<bar> > 0.8 \<and> throttle_value self > 0.7
      then reading (dict_get (config self) ''assists'' (PDict [])) self (\<lambda>assists.
           reading (dict_get assists ''counter_steer_strength'' (PNum 0.5)) self (\<lambda>strength.
           reading (as_float strength) self (\<lambda>s.
           (self\<lparr>steering_value := steering_value self * (1 - s)\<rparr>, None))))
      else (self, None))"

definition apply_anti_spin :: "processor \<Rightarrow> outcome" where
  "apply_anti_spin self =
     (if \<bar>steering_value self\<bar> > 0.6 \<and> throttle_value self > 0.8
      then reading (dict_get (config self) ''assists'' (PDict [])) self (\<lambda>assists.
           reading (dict_get assists ''spin_prevention'' (PNum 0.6)) self (\<lambda>strength.
           reading (as_float strength) self (\<lambda>s.
           (self\<lparr>throttle_value := throttle_value self * (1 - s)\<rparr>, None))))
      else (self, None))"

definition apply_assists :: "processor \<Rightarrow> outcome" where
  "apply_assists self =
     reading (dict_get (config self) ''assists'' (PDict [])) self (\<lambda>assists.
     reading (dict_get assists ''counter_steer_assist'' (PBool True)) self (\<lambda>counter_steer_assist.
     and_then (if truthy counter_steer_assist then apply_counter_steer self else (self, None))
       (\<lambda>self.
          reading (dict_get assists ''anti_spin_assist'' (PBool True)) self (\<lambda>anti_spin_assist.
          if truthy anti_spin_assist then apply_anti_spin self else (self, None)))))"

text \<open>
  \<^verbatim>\<open>update\<close>.  The four clock readings of one tick, one for each call of
  \<^verbatim>\<open>_calculate_key_value\<close>, in the order the calls are made.
\<close>

record clock =
  left_time :: real
  right_time :: real
  accelerate_time :: real
  brake_time :: real

definition update :: "clock \<Rightarrow> real \<Rightarrow> processor \<Rightarrow> outcome" where
  "update clk delta_time self =
     and_then (update_steering (left_time clk) (right_time clk) delta_time self) (\<lambda>self.
     and_then (update_pedals (accelerate_time clk) (brake_time clk) delta_time self) (\<lambda>self.
     apply_assists self))"

text \<open>\<^verbatim>\<open>get_inputs\<close>: steering, throttle, brake.\<close>

definition get_inputs :: "processor \<Rightarrow> real \<times> real \<times> real" where
  "get_inputs self = (steering_value self, throttle_value self, brake_value self)"

text \<open>
  The caller's loop (\<^verbatim>\<open>_process_keyboard_input\<close> of the input manager): key events
  arrive between ticks, each tick calls \<^verbatim>\<open>update\<close> and then reads
  \<^verbatim>\<open>get_inputs\<close>; a tick that raises is logged and produces no output.
\<close>

datatype event = Key_down pykey real | Key_up pykey real | Tick clock real

fun run :: "event list \<Rightarrow> processor \<Rightarrow> (real \<times> real \<times> real) list" where
  "run [] self = []"
| "run (Key_down key t # es) self = run es (key_pressed key t self)"
| "run (Key_up key t # es) self = run es (key_released key t self)"
| "run (Tick clk delta_time # es) self =
     (case update clk delta_time self of
        (self', None) \<Rightarrow> get_inputs self' # run es self'
      | (self', Some e) \<Rightarrow> run es self')"


section \<open>input\_device\_manager.py\<close>

datatype InputDevice = KEYBOARD | STEERING_WHEEL | UNKNOWN

text \<open>
  An exception raised by code outside the repository (a listener, the keyboard library)
  is an instance of \<^verbatim>\<open>Exception\<close>, kept as its message.  A listener is called with the
  device and acts on the world outside the manager: it returns with the world it leaves,
  or raises.  The manager's log holds one record for each logging call.
\<close>

datatype exn = Exception string

type_synonym 'w listener = "InputDevice \<Rightarrow> 'w \<Rightarrow> 'w \<times> exn option"

datatype log_record =
    Callback_error exn
  | Device_changed InputDevice
  | Detection_loop_error exn

record 'w device_manager =
  current_device :: InputDevice
  device_changed_callbacks :: "'w listener list"
  last_keyboard_time :: real
  last_wheel_time :: real
  detection_threshold :: real
  running :: bool

text \<open>\<^verbatim>\<open>__init__\<close>, without the configuration file it loads and the thread it starts.\<close>

definition InputDeviceManager_init :: "'w device_manager" where
  "InputDeviceManager_init =
     \<lparr>current_device = UNKNOWN, device_changed_callbacks = [],
      last_keyboard_time = 0, last_wheel_time = 0, detection_threshold = 0.5,
      running = True\<rparr>"

definition register_device_changed_callback ::
    "'w listener \<Rightarrow> 'w device_manager \<Rightarrow> 'w device_manager" where
  "register_device_changed_callback callback self =
     self\<lparr>device_changed_callbacks := device_changed_callbacks self @ [callback]\<rparr>"

text \<open>\<^verbatim>\<open>_notify_device_changed\<close>: the loop over the callbacks, each in its own \<^verbatim>\<open>try\<close>.\<close>

fun notify_callbacks ::
    "'w listener list \<Rightarrow> InputDevice \<Rightarrow> 'w \<times> log_record list \<Rightarrow> 'w \<times> log_record list" where
  "notify_callbacks [] device (world, logged) = (world, logged)"
| "notify_callbacks (callback # callbacks) device (world, logged) =
     (case callback device world of
        (world', None) \<Rightarrow> notify_callbacks callbacks device (world', logged)
      | (world', Some e) \<Rightarrow> notify_callbacks callbacks device (world', logged @ [Callback_error e]))"

definition notify_device_changed ::
    "'w device_manager \<Rightarrow> 'w \<times> log_record list \<Rightarrow> 'w \<times> log_record list" where
  "notify_device_changed self = notify_callbacks (device_changed_callbacks self) (current_device self)"

definition check_wheel_activity :: "'w device_manager \<Rightarrow> bool" where
  "check_wheel_activity self = False"

text \<open>
  What one iteration of \<^verbatim>\<open>_device_detection_loop\<close> observes: the answers of
  \<^verbatim>\<open>keyboard.is_pressed\<close> (which may raise) and the three clock readings.
\<close>

record sample =
  is_pressed :: "string \<Rightarrow> exn + bool"
  keyboard_reading :: real
  wheel_reading :: real
  current_reading :: real

text \<open>\<^verbatim>\<open>any(keyboard.is_pressed(key) for key in keys)\<close>: stops at the first key that is down.\<close>

fun any_pressed :: "(string \<Rightarrow> exn + bool) \<Rightarrow> string list \<Rightarrow> exn + bool" where
  "any_pressed f [] = Inr False"
| "any_pressed f (key # keys) =
     on_value (f key) (\<lambda>down. if down then Inr True else any_pressed f keys)"

text \<open>The device the loop computes from the two activity flags.\<close>

definition new_device_of :: "bool \<Rightarrow> bool \<Rightarrow> InputDevice" where
  "new_device_of keyboard_active wheel_active =
     (if keyboard_active \<and> \<not> wheel_active then KEYBOARD
      else if wheel_active \<and> \<not> keyboard_active then STEERING_WHEEL
      else UNKNOWN)"

text \<open>The body of the \<^verbatim>\<open>while\<close> loop, without the sleeps.\<close>

definition detection_iteration ::
    "sample \<Rightarrow> 'w device_manager \<times> 'w \<times> log_record list
       \<Rightarrow> 'w device_manager \<times> 'w \<times> log_record list" where
  "detection_iteration smp st =
     (case st of (self, world, logged) \<Rightarrow>
      case any_pressed (is_pressed smp) [''w'', ''a'', ''s'', ''d'', ''space''] of
        Inl e \<Rightarrow> (self, world, logged @ [Detection_loop_error e])
      | Inr down \<Rightarrow>
          let self = (if down then self\<lparr>last_keyboard_time := keyboard_reading smp\<rparr> else self);
              wheel_active = check_wheel_activity self;
              self = (if wheel_active then self\<lparr>last_wheel_time := wheel_reading smp\<rparr> else self);
              current_time = current_reading smp;
              keyboard_active = (current_time - last_keyboard_time self < detection_threshold self);
              wheel_active = (current_time - last_wheel_time self < detection_threshold self);
              new_device = new_device_of keyboard_active wheel_active
          in if new_device \<noteq> current_device self
             then let self = self\<lparr>current_device := new_device\<rparr>;
                      (world, logged) = notify_device_changed self (world, logged)
                  in (self, world, logged @ [Device_changed new_device])
             else (self, world, logged))"

text \<open>The loop over the samples the environment supplies, while \<^verbatim>\<open>running\<close> is set.\<close>

fun device_detection_loop ::
    "sample list \<Rightarrow> 'w device_manager \<times> 'w \<times> log_record list
       \<Rightarrow> 'w device_manager \<times> 'w \<times> log_record list" where
  "device_detection_loop [] st = st"
| "device_detection_loop (smp # smps) st =
     (if running (fst st) then device_detection_loop smps (detection_iteration smp st) else st)"

section \<open>input\_manager.py\<close>

datatype manager_log =
    Processor_initialized
  | Initialize_failed error
  | Bindings_updated
  | Bindings_update_failed error

record manager =
  manager_config :: pyval
  keyboard_processor :: "processor option"
  manager_log :: "manager_log list"

definition default_bindings :: pyval where
  "default_bindings =
     PDict [(''steer_left'', PStr ''a''), (''steer_right'', PStr ''d''),
            (''throttle'', PStr ''w''), (''brake'', PStr ''s''),
            (''gear_up'', PStr ''shift''), (''gear_down'', PStr ''ctrl''),
            (''clutch'', PStr ''space''), (''handbrake'', PStr ''alt'')]"

text \<open>The dict \<^verbatim>\<open>_init_keyboard_support\<close> builds from the main configuration.\<close>

definition keyboard_config :: "pyval \<Rightarrow> error + pyval" where
  "keyboard_config cfg =
     on_value (dict_get cfg ''key_bindings'' default_bindings) (\<lambda>key_bindings.
     on_value (dict_get key_bindings ''steer_left'' (PStr ''a'')) (\<lambda>left.
     on_value (dict_get key_bindings ''steer_right'' (PStr ''d'')) (\<lambda>right.
     on_value (dict_get key_bindings ''throttle'' (PStr ''w'')) (\<lambda>throttle.
     on_value (dict_get key_bindings ''brake'' (PStr ''s'')) (\<lambda>brake.
     on_value (dict_get cfg ''response_speed'' (PNum 1)) (\<lambda>response_speed.
       Inr (PDict
         [(''steering_keys'', PDict [(''left'', left), (''right'', right)]),
          (''throttle_key'', throttle),
          (''brake_key'', brake),
          (''sensitivity'',
             PDict [(''steering'', response_speed), (''throttle'', PNum 1), (''brake'', PNum 1)]),
          (''smoothing'',
             PDict [(''steering'', PNum 0.3), (''throttle'', PNum 0.2), (''brake'', PNum 0.2)])])))))))"

text \<open>\<^verbatim>\<open>_init_keyboard_support\<close>: any exception is logged and the processor stays as it was.\<close>

definition init_keyboard_support :: "manager \<Rightarrow> manager" where
  "init_keyboard_support self =
     (case on_value (keyboard_config (manager_config self)) KeyboardProcessor_init of
        Inl e \<Rightarrow> self\<lparr>manager_log := manager_log self @ [Initialize_failed e]\<rparr>
      | Inr p \<Rightarrow> self\<lparr>keyboard_processor := Some p,
                       manager_log := manager_log self @ [Processor_initialized]\<rparr>)"

definition set_config :: "pyval \<Rightarrow> manager \<Rightarrow> manager" where
  "set_config cfg self = init_keyboard_support (self\<lparr>manager_config := cfg\<rparr>)"

definition update_key_bindings :: "pyval \<Rightarrow> manager \<Rightarrow> manager" where
  "update_key_bindings key_bindings self =
     (case dict_set (manager_config self) ''key_bindings'' key_bindings of
        Inl e \<Rightarrow> self\<lparr>manager_log := manager_log self @ [Bindings_update_failed e]\<rparr>
      | Inr cfg \<Rightarrow>
          let self = init_keyboard_support (self\<lparr>manager_config := cfg\<rparr>)
          in self\<lparr>manager_log := manager_log self @ [Bindings_updated]\<rparr>)"

section \<open>Constants of the proofs and concrete inputs\<close>



text \<open>Shaped values that meet both assist thresholds, under the default configuration.\<close>

definition assist_example :: processor where
  "assist_example =
     \<lparr>config = PDict [], key_states = Map.empty,
      steering_value = 0.9, throttle_value = 0.85, brake_value = 0,
      steering_smoothing = 0.8, pedal_smoothing = 0.7\<rparr>"

text \<open>Shaped values that meet the anti-spin threshold only.\<close>

definition spin_example :: processor where
  "spin_example =
     \<lparr>config = PDict [], key_states = Map.empty,
      steering_value = 0.7, throttle_value = 0.85, brake_value = 0,
      steering_smoothing = 0.8, pedal_smoothing = 0.7\<rparr>"

text \<open>A processor that tracks \<^verbatim>\<open>a\<close>, released at 5 after a hold from 3.\<close>

definition released_state :: KeyState where
  "released_state =
     \<lparr>pressed = False, press_time = 3, release_time = 5, hold_duration = 2, key_value = 0\<rparr>"

definition released_example :: processor where
  "released_example =
     \<lparr>config = PDict [], key_states = [KStr ''a'' \<mapsto> released_state],
      steering_value = 0, throttle_value = 0, brake_value = 0,
      steering_smoothing = 0.8, pedal_smoothing = 0.7\<rparr>"

text \<open>
  Listeners on a world that records the devices announced: one appends the device, one
  raises.  A sample at reading \<open>t\<close> with no key down, and a manager in keyboard mode whose
  last keyboard activity was at 100.
\<close>

definition record_listener :: "InputDevice list listener" where
  "record_listener device world = (world @ [device], None)"


definition quiet_sample :: "real \<Rightarrow> sample" where
  "quiet_sample t =
     \<lparr>is_pressed = (\<lambda>key. Inr False), keyboard_reading = t, wheel_reading = t, current_reading = t\<rparr>"

definition keyboard_mode :: "InputDevice list device_manager" where
  "keyboard_mode =
     \<lparr>current_device = KEYBOARD, device_changed_callbacks = [record_listener],
      last_keyboard_time = 100, last_wheel_time = 0, detection_threshold = 0.5,
      running = True\<rparr>"

text \<open>
  The processor \<^verbatim>\<open>KeyboardProcessor({})\<close> constructs, bindings a user might choose, and
  an input manager before its first initialisation.
\<close>

definition default_processor :: processor where
  "default_processor =
     \<lparr>config = PDict [],
      key_states = [KStr ''a'' \<mapsto> KeyState_init, KStr ''d'' \<mapsto> KeyState_init,
                    KStr ''w'' \<mapsto> KeyState_init, KStr ''s'' \<mapsto> KeyState_init],
      steering_value = 0, throttle_value = 0, brake_value = 0,
      steering_smoothing = 0.8, pedal_smoothing = 0.7\<rparr>"

definition custom_bindings :: pyval where
  "custom_bindings =
     PDict [(''steer_left'', PStr ''j''), (''steer_right'', PStr ''l''),
            (''throttle'', PStr ''i''), (''brake'', PStr ''k'')]"

definition fresh_manager :: manager where
  "fresh_manager = \<lparr>manager_config = PDict [], keyboard_processor = None, manager_log = []\<rparr>"








text \<open>No key that is down was pressed after the clock reading \<open>t\<close>.\<close>

definition pressed_before :: "real \<Rightarrow> processor \<Rightarrow> bool" where
  "pressed_before t self =
     (\<forall>k st. key_states self k = Some st \<and> pressed st \<longrightarrow> press_time st \<le> t)"



section \<open>Facts about the helpers\<close>

lemma on_value_simps:
  "on_value (Inr v) k = k v" "on_value (Inl e) k = Inl e"
  by (simp_all add: on_value_def)

lemma reading_simps:
  "reading (Inr v) self k = k v" "reading (Inl e) self k = (self, Some e)"
  by (simp_all add: reading_def)

lemma and_then_simps:
  "and_then (self, None) k = k self" "and_then (self, Some e) k = (self, Some e)"
  by (simp_all add: and_then_def)





section \<open>The hold curve\<close>








section \<open>Convergence of the smoothing step\<close>









section \<open>The assists\<close>

text \<open>
  Claim C1, as stated: with both assists enabled the anti-spin condition is evaluated on
  the steering captured before either assist ran, so that every shaped pair with
  \<open>\<bar>steering\<bar> > 0.8\<close> and \<open>throttle > 0.8\<close> has its throttle scaled by
  \<open>1 - spin_prevention\<close> in the same tick.  It fails at steering 0.9, throttle 0.85 under
  the default strengths: counter-steer halves the steering to 0.45, anti-spin then reads
  0.45 and leaves the throttle at 0.85.
\<close>

theorem anti_spin_reads_reduced_steering_counterexample:
  "\<bar>steering_value assist_example\<bar> > 0.8 \<and> throttle_value assist_example > 0.8 \<and>
   apply_assists assist_example = (assist_example\<lparr>steering_value := 0.45\<rparr>, None) \<and>
   throttle_value (fst (apply_assists assist_example)) = 0.85 \<and>
   throttle_value (fst (apply_assists assist_example))
     \<noteq> throttle_value assist_example * (1 - 0.6)"
  by (simp add: apply_assists_def apply_counter_steer_def apply_anti_spin_def assist_example_def
      reading_simps and_then_simps)

text \<open>
  Claim C1, amended.  With both assists enabled and numeric strengths, the pass first
  scales the steering by \<open>1 - counter_steer_strength\<close> when \<open>\<bar>steering\<bar> > 0.8\<close> and
  \<open>throttle > 0.7\<close>, and then evaluates the anti-spin condition on the steering that
  counter-steer left: the throttle is scaled by \<open>1 - spin_prevention\<close> exactly when that
  steering exceeds 0.6 in magnitude and the throttle exceeds 0.8.
\<close>

theorem apply_assists_sequential:
  assumes "dict_get (config self) ''assists'' (PDict []) = Inr assists"
    and "dict_get assists ''counter_steer_assist'' (PBool True) = Inr a1" and "truthy a1"
    and "dict_get assists ''anti_spin_assist'' (PBool True) = Inr a2" and "truthy a2"
    and "dict_get assists ''counter_steer_strength'' (PNum 0.5) = Inr v1"
    and "as_float v1 = Inr cs"
    and "dict_get assists ''spin_prevention'' (PNum 0.6) = Inr v2"
    and "as_float v2 = Inr sp"
  shows "apply_assists self =
     (let steering' = (if \<bar>steering_value self\<bar> > 0.8 \<and> throttle_value self > 0.7
                       then steering_value self * (1 - cs) else steering_value self);
          throttle' = (if \<bar>steering'\<bar> > 0.6 \<and> throttle_value self > 0.8
                       then throttle_value self * (1 - sp) else throttle_value self)
      in (self\<lparr>steering_value := steering', throttle_value := throttle'\<rparr>, None))"
  using assms
  by (simp add: apply_assists_def apply_counter_steer_def apply_anti_spin_def
      reading_simps and_then_simps Let_def)

theorem apply_assists_sequential_witness:
  "apply_assists spin_example = (spin_example\<lparr>throttle_value := 0.34\<rparr>, None)"
proof -
  have "apply_assists spin_example =
     (let steering' = (if \<bar>steering_value spin_example\<bar> > 0.8 \<and> throttle_value spin_example > 0.7
                       then steering_value spin_example * (1 - 0.5) else steering_value spin_example);
          throttle' = (if \<bar>steering'\<bar> > 0.6 \<and> throttle_value spin_example > 0.8
                       then throttle_value spin_example * (1 - 0.6) else throttle_value spin_example)
      in (spin_example\<lparr>steering_value := steering', throttle_value := throttle'\<rparr>, None))"
    by (rule apply_assists_sequential [where assists = "PDict []" and ?a1.0 = "PBool True"
          and ?a2.0 = "PBool True" and ?v1.0 = "PNum 0.5" and ?v2.0 = "PNum 0.6"])
       (simp_all add: spin_example_def)
  then show ?thesis by (simp add: spin_example_def Let_def)
qed

section \<open>The key handlers\<close>

text \<open>
  Claim C9, as stated: a key-up event on a tracked key that is not pressed leaves the
  key's state unchanged.  It fails for the key \<^verbatim>\<open>a\<close> released at 5 after a hold from 3:
  a second key-up at 10 overwrites the release time with 10 and the hold duration with 7.
\<close>

theorem key_released_unpressed_counterexample:
  "key_states released_example (KStr ''a'') = Some released_state \<and>
   \<not> pressed released_state \<and>
   key_states (key_released (KStr ''a'') 10 released_example) (KStr ''a'') =
     Some \<lparr>pressed = False, press_time = 3, release_time = 10, hold_duration = 7, key_value = 0\<rparr> \<and>
   key_states (key_released (KStr ''a'') 10 released_example) (KStr ''a'')
     \<noteq> key_states released_example (KStr ''a'')"
  by (simp add: key_released_def released_example_def released_state_def)

text \<open>
  Claim C9, amended.  A key-up event on a tracked key sets \<open>pressed\<close> to false,
  \<open>release_time\<close> to the clock reading and \<open>hold_duration\<close> to the reading minus
  \<open>press_time\<close>, whether or not the key was pressed; the key's \<open>press_time\<close> and value, the
  state of every other key and the rest of the processor are unchanged, and an event for
  a key that is not tracked changes nothing.
\<close>

theorem key_released_effect:
  "(\<forall>st. key_states self key = Some st \<longrightarrow>
      key_released key now self =
        self\<lparr>key_states := (key_states self)(key \<mapsto>
          st\<lparr>pressed := False, release_time := now, hold_duration := now - press_time st\<rparr>)\<rparr>) \<and>
   (key_states self key = None \<longrightarrow> key_released key now self = self) \<and>
   (\<forall>k. k \<noteq> key \<longrightarrow> key_states (key_released key now self) k = key_states self k) \<and>
   dom (key_states (key_released key now self)) = dom (key_states self) \<and>
   config (key_released key now self) = config self \<and>
   get_inputs (key_released key now self) = get_inputs self"
  by (auto simp: key_released_def get_inputs_def split: option.splits)

theorem key_released_effect_witness:
  "key_released (KStr ''a'') 10 released_example =
     released_example\<lparr>key_states := [KStr ''a'' \<mapsto>
       \<lparr>pressed = False, press_time = 3, release_time = 10, hold_duration = 7, key_value = 0\<rparr>]\<rparr> \<and>
   key_released (KStr ''q'') 10 released_example = released_example \<and>
   key_states (key_released (KStr ''q'') 10 released_example) (KStr ''a'') = Some released_state"
proof -
  note inst = key_released_effect [of released_example "KStr ''a''" 10]
  have tracked: "key_states released_example (KStr ''a'') = Some released_state"
    by (simp add: released_example_def)
  from inst tracked have "key_released (KStr ''a'') 10 released_example =
      released_example\<lparr>key_states := (key_states released_example)(KStr ''a'' \<mapsto>
        released_state\<lparr>pressed := False, release_time := 10,
                        hold_duration := 10 - press_time released_state\<rparr>)\<rparr>"
    by blast
  then have a: "key_released (KStr ''a'') 10 released_example =
     released_example\<lparr>key_states := [KStr ''a'' \<mapsto>
       \<lparr>pressed = False, press_time = 3, release_time = 10, hold_duration = 7, key_value = 0\<rparr>]\<rparr>"
    by (simp add: released_example_def released_state_def)
  note inst' = key_released_effect [of released_example "KStr ''q''" 10]
  have untracked: "key_states released_example (KStr ''q'') = None"
    by (simp add: released_example_def)
  from inst' untracked have b: "key_released (KStr ''q'') 10 released_example = released_example"
    by blast
  from inst' have "key_states (key_released (KStr ''q'') 10 released_example) (KStr ''a'')
      = key_states released_example (KStr ''a'')"
    by simp
  with tracked a b show ?thesis by simp
qed

section \<open>The device arbitrator\<close>



lemma any_pressed_quiet: "any_pressed (\<lambda>key. Inr False) keys = Inr False"
  by (induction keys) (simp_all add: on_value_def)


lemma detection_iteration_ok:
  assumes "any_pressed (is_pressed smp) [''w'', ''a'', ''s'', ''d'', ''space''] = Inr down"
  shows "detection_iteration smp (self, world, logged) =
     (let self1 = (if down then self\<lparr>last_keyboard_time := keyboard_reading smp\<rparr> else self);
          keyboard_active = (current_reading smp - last_keyboard_time self1 < detection_threshold self);
          wheel_active = (current_reading smp - last_wheel_time self < detection_threshold self);
          new_device = new_device_of keyboard_active wheel_active
      in if new_device \<noteq> current_device self
         then (self1\<lparr>current_device := new_device\<rparr>,
               fst (notify_callbacks (device_changed_callbacks self) new_device (world, logged)),
               snd (notify_callbacks (device_changed_callbacks self) new_device (world, logged))
                 @ [Device_changed new_device])
         else (self1, world, logged))"
  using assms
  by (simp add: detection_iteration_def check_wheel_activity_def notify_device_changed_def
      Let_def split: prod.splits)

lemma new_device_of_iff:
  "(new_device_of k w = KEYBOARD \<longleftrightarrow> k \<and> \<not> w) \<and>
   (new_device_of k w = STEERING_WHEEL \<longleftrightarrow> w \<and> \<not> k) \<and>
   (new_device_of k w = UNKNOWN \<longleftrightarrow> (k \<longleftrightarrow> w))"
  by (auto simp: new_device_of_def)

lemma detection_iteration_general:
  assumes poll: "any_pressed (is_pressed smp) [''w'', ''a'', ''s'', ''d'', ''space''] = Inr down"
    and step: "detection_iteration smp (self, world, logged) = (self', world', logged')"
    and ka: "keyboard_active =
               (current_reading smp - last_keyboard_time self' < detection_threshold self')"
    and wa: "wheel_active =
               (current_reading smp - last_wheel_time self' < detection_threshold self')"
  shows "(current_device self' = KEYBOARD \<longleftrightarrow> keyboard_active \<and> \<not> wheel_active) \<and>
         (current_device self' = STEERING_WHEEL \<longleftrightarrow> wheel_active \<and> \<not> keyboard_active) \<and>
         (current_device self' = UNKNOWN \<longleftrightarrow> (keyboard_active \<longleftrightarrow> wheel_active)) \<and>
         last_keyboard_time self' =
           (if down then keyboard_reading smp else last_keyboard_time self) \<and>
         (current_device self' = current_device self \<longrightarrow> world' = world \<and> logged' = logged) \<and>
         (current_device self' \<noteq> current_device self \<longrightarrow>
            world' = fst (notify_callbacks (device_changed_callbacks self)
                            (current_device self') (world, logged)) \<and>
            logged' = snd (notify_callbacks (device_changed_callbacks self)
                             (current_device self') (world, logged))
                        @ [Device_changed (current_device self')])"
proof -
  define lk where "lk = (if down then keyboard_reading smp else last_keyboard_time self)"
  define nd where "nd = new_device_of (current_reading smp - lk < detection_threshold self)
                          (current_reading smp - last_wheel_time self < detection_threshold self)"
  have self': "current_device self' = nd \<and> last_keyboard_time self' = lk \<and>
               last_wheel_time self' = last_wheel_time self \<and>
               detection_threshold self' = detection_threshold self"
    using step unfolding detection_iteration_ok [OF poll] lk_def nd_def
    by (auto simp: Let_def split: if_splits)
  have out: "nd = current_device self \<longrightarrow> world' = world \<and> logged' = logged"
    using step unfolding detection_iteration_ok [OF poll] lk_def nd_def
    by (auto simp: Let_def split: if_splits)
  have out': "nd \<noteq> current_device self \<longrightarrow>
      world' = fst (notify_callbacks (device_changed_callbacks self) nd (world, logged)) \<and>
      logged' = snd (notify_callbacks (device_changed_callbacks self) nd (world, logged))
                  @ [Device_changed nd]"
    using step unfolding detection_iteration_ok [OF poll] lk_def nd_def
    by (auto simp: Let_def split: if_splits)
  have nd: "nd = new_device_of keyboard_active wheel_active"
    using self' by (simp add: ka wa nd_def)
  show ?thesis
    using self' out out' new_device_of_iff [of keyboard_active wheel_active]
    by (simp add: nd lk_def)
qed

lemma detection_scenario:
  assumes "detection_threshold self = 0.5" and "last_keyboard_time self = t0"
    and "last_wheel_time self \<le> t0 - 0.1" and "current_device self = KEYBOARD"
  shows "detection_iteration (quiet_sample (t0 + 0.4)) (self, world, logged)
           = (self, world, logged)"
    and "detection_iteration (quiet_sample (t0 + 0.6)) (self, world, logged)
           = (self\<lparr>current_device := UNKNOWN\<rparr>,
              fst (notify_callbacks (device_changed_callbacks self) UNKNOWN (world, logged)),
              snd (notify_callbacks (device_changed_callbacks self) UNKNOWN (world, logged))
                @ [Device_changed UNKNOWN])"
proof -
  have poll: "any_pressed (is_pressed (quiet_sample t)) [''w'', ''a'', ''s'', ''d'', ''space'']
                = Inr False" for t
    by (simp add: quiet_sample_def any_pressed_quiet)
  have r: "current_reading (quiet_sample t) = t" for t
    by (simp add: quiet_sample_def)
  show "detection_iteration (quiet_sample (t0 + 0.4)) (self, world, logged)
           = (self, world, logged)"
    using assms by (simp add: detection_iteration_ok [OF poll] r new_device_of_def)
  show "detection_iteration (quiet_sample (t0 + 0.6)) (self, world, logged)
           = (self\<lparr>current_device := UNKNOWN\<rparr>,
              fst (notify_callbacks (device_changed_callbacks self) UNKNOWN (world, logged)),
              snd (notify_callbacks (device_changed_callbacks self) UNKNOWN (world, logged))
                @ [Device_changed UNKNOWN])"
    using assms by (simp add: detection_iteration_ok [OF poll] r new_device_of_def)
qed

text \<open>
  Claim C8.  On a sampling tick whose keyboard poll returns, the device computed is
  KEYBOARD iff the keyboard is active and the wheel is not, STEERING\_WHEEL iff the wheel
  is active and the keyboard is not, and UNKNOWN otherwise, where a device is active when
  the clock reading minus its last activity time is below the detection threshold; the
  device becomes the current device, and the listeners are notified with it exactly when
  it differs from the stored current device (no listener runs and nothing is logged
  otherwise).  In the scenario of keyboard activity at \<open>t0\<close> and none after, with the wheel
  inactive and threshold 0.5, the tick at \<open>t0 + 0.4\<close> leaves the manager in KEYBOARD
  without notification, and the tick at \<open>t0 + 0.6\<close> moves it to UNKNOWN with one
  notification pass over the listeners.
\<close>

theorem device_arbitration:
  "(\<forall>smp (self :: 'w device_manager) world logged down self' world' logged'.
      any_pressed (is_pressed smp) [''w'', ''a'', ''s'', ''d'', ''space''] = Inr down \<and>
      detection_iteration smp (self, world, logged) = (self', world', logged') \<longrightarrow>
      (current_device self' = KEYBOARD \<longleftrightarrow>
         current_reading smp - last_keyboard_time self' < detection_threshold self' \<and>
         \<not> current_reading smp - last_wheel_time self' < detection_threshold self') \<and>
      (current_device self' = STEERING_WHEEL \<longleftrightarrow>
         current_reading smp - last_wheel_time self' < detection_threshold self' \<and>
         \<not> current_reading smp - last_keyboard_time self' < detection_threshold self') \<and>
      (current_device self' = UNKNOWN \<longleftrightarrow>
         (current_reading smp - last_keyboard_time self' < detection_threshold self' \<longleftrightarrow>
          current_reading smp - last_wheel_time self' < detection_threshold self')) \<and>
      last_keyboard_time self' =
        (if down then keyboard_reading smp else last_keyboard_time self) \<and>
      (current_device self' = current_device self \<longrightarrow> world' = world \<and> logged' = logged) \<and>
      (current_device self' \<noteq> current_device self \<longrightarrow>
         world' = fst (notify_callbacks (device_changed_callbacks self)
                         (current_device self') (world, logged)) \<and>
         logged' = snd (notify_callbacks (device_changed_callbacks self)
                          (current_device self') (world, logged))
                     @ [Device_changed (current_device self')])) \<and>
   (\<forall>t0 (self :: 'w device_manager) world logged.
      detection_threshold self = 0.5 \<and> last_keyboard_time self = t0 \<and>
      last_wheel_time self \<le> t0 - 0.1 \<and> current_device self = KEYBOARD \<and> running self \<longrightarrow>
      device_detection_loop [quiet_sample (t0 + 0.4)] (self, world, logged)
        = (self, world, logged) \<and>
      device_detection_loop [quiet_sample (t0 + 0.4), quiet_sample (t0 + 0.6)] (self, world, logged)
        = (self\<lparr>current_device := UNKNOWN\<rparr>,
           fst (notify_callbacks (device_changed_callbacks self) UNKNOWN (world, logged)),
           snd (notify_callbacks (device_changed_callbacks self) UNKNOWN (world, logged))
             @ [Device_changed UNKNOWN]))"
proof (rule conjI)
  show "\<forall>smp (self :: 'w device_manager) world logged down self' world' logged'.
      any_pressed (is_pressed smp) [''w'', ''a'', ''s'', ''d'', ''space''] = Inr down \<and>
      detection_iteration smp (self, world, logged) = (self', world', logged') \<longrightarrow>
      (current_device self' = KEYBOARD \<longleftrightarrow>
         current_reading smp - last_keyboard_time self' < detection_threshold self' \<and>
         \<not> current_reading smp - last_wheel_time self' < detection_threshold self') \<and>
      (current_device self' = STEERING_WHEEL \<longleftrightarrow>
         current_reading smp - last_wheel_time self' < detection_threshold self' \<and>
         \<not> current_reading smp - last_keyboard_time self' < detection_threshold self') \<and>
      (current_device self' = UNKNOWN \<longleftrightarrow>
         (current_reading smp - last_keyboard_time self' < detection_threshold self' \<longleftrightarrow>
          current_reading smp - last_wheel_time self' < detection_threshold self')) \<and>
      last_keyboard_time self' =
        (if down then keyboard_reading smp else last_keyboard_time self) \<and>
      (current_device self' = current_device self \<longrightarrow> world' = world \<and> logged' = logged) \<and>
      (current_device self' \<noteq> current_device self \<longrightarrow>
         world' = fst (notify_callbacks (device_changed_callbacks self)
                         (current_device self') (world, logged)) \<and>
         logged' = snd (notify_callbacks (device_changed_callbacks self)
                          (current_device self') (world, logged))
                     @ [Device_changed (current_device self')])"
  proof (intro allI impI, elim conjE)
    fix smp and self self' :: "'w device_manager" and world world' :: 'w
      and logged logged' down
    assume poll: "any_pressed (is_pressed smp) [''w'', ''a'', ''s'', ''d'', ''space''] = Inr down"
      and step: "detection_iteration smp (self, world, logged) = (self', world', logged')"
    show "(current_device self' = KEYBOARD \<longleftrightarrow>
         current_reading smp - last_keyboard_time self' < detection_threshold self' \<and>
         \<not> current_reading smp - last_wheel_time self' < detection_threshold self') \<and>
      (current_device self' = STEERING_WHEEL \<longleftrightarrow>
         current_reading smp - last_wheel_time self' < detection_threshold self' \<and>
         \<not> current_reading smp - last_keyboard_time self' < detection_threshold self') \<and>
      (current_device self' = UNKNOWN \<longleftrightarrow>
         (current_reading smp - last_keyboard_time self' < detection_threshold self' \<longleftrightarrow>
          current_reading smp - last_wheel_time self' < detection_threshold self')) \<and>
      last_keyboard_time self' =
        (if down then keyboard_reading smp else last_keyboard_time self) \<and>
      (current_device self' = current_device self \<longrightarrow> world' = world \<and> logged' = logged) \<and>
      (current_device self' \<noteq> current_device self \<longrightarrow>
         world' = fst (notify_callbacks (device_changed_callbacks self)
                         (current_device self') (world, logged)) \<and>
         logged' = snd (notify_callbacks (device_changed_callbacks self)
                          (current_device self') (world, logged))
                     @ [Device_changed (current_device self')])"
      by (rule detection_iteration_general [OF poll step refl refl])
  qed
next
  show "\<forall>t0 (self :: 'w device_manager) world logged.
      detection_threshold self = 0.5 \<and> last_keyboard_time self = t0 \<and>
      last_wheel_time self \<le> t0 - 0.1 \<and> current_device self = KEYBOARD \<and> running self \<longrightarrow>
      device_detection_loop [quiet_sample (t0 + 0.4)] (self, world, logged)
        = (self, world, logged) \<and>
      device_detection_loop [quiet_sample (t0 + 0.4), quiet_sample (t0 + 0.6)] (self, world, logged)
        = (self\<lparr>current_device := UNKNOWN\<rparr>,
           fst (notify_callbacks (device_changed_callbacks self) UNKNOWN (world, logged)),
           snd (notify_callbacks (device_changed_callbacks self) UNKNOWN (world, logged))
             @ [Device_changed UNKNOWN])"
  proof (intro allI impI, elim conjE)
    fix t0 :: real and self :: "'w device_manager" and world :: 'w and logged
    assume a: "detection_threshold self = 0.5" "last_keyboard_time self = t0"
      "last_wheel_time self \<le> t0 - 0.1" "current_device self = KEYBOARD"
      and r: "running self"
    note one = detection_scenario(1) [OF a, of world logged]
    note two = detection_scenario(2) [OF a, of world logged]
    show "device_detection_loop [quiet_sample (t0 + 0.4)] (self, world, logged)
        = (self, world, logged) \<and>
      device_detection_loop [quiet_sample (t0 + 0.4), quiet_sample (t0 + 0.6)] (self, world, logged)
        = (self\<lparr>current_device := UNKNOWN\<rparr>,
           fst (notify_callbacks (device_changed_callbacks self) UNKNOWN (world, logged)),
           snd (notify_callbacks (device_changed_callbacks self) UNKNOWN (world, logged))
             @ [Device_changed UNKNOWN])"
      using r by (simp only: device_detection_loop.simps one two fst_conv if_True simp_thms)
  qed
qed

theorem device_arbitration_witness:
  "device_detection_loop [quiet_sample 100.4] (keyboard_mode, [], []) = (keyboard_mode, [], []) \<and>
   device_detection_loop [quiet_sample 100.4, quiet_sample 100.6] (keyboard_mode, [], [])
     = (keyboard_mode\<lparr>current_device := UNKNOWN\<rparr>, [UNKNOWN], [Device_changed UNKNOWN])"
proof -
  have h: "detection_threshold keyboard_mode = 0.5 \<and> last_keyboard_time keyboard_mode = 100 \<and>
      last_wheel_time keyboard_mode \<le> 100 - 0.1 \<and> current_device keyboard_mode = KEYBOARD \<and>
      running keyboard_mode"
    by (simp add: keyboard_mode_def)
  have n: "notify_callbacks (device_changed_callbacks keyboard_mode) UNKNOWN ([], [])
             = ([UNKNOWN], [])"
    by (simp add: keyboard_mode_def record_listener_def)
  have "device_detection_loop [quiet_sample (100 + 0.4)] (keyboard_mode, [], [])
        = (keyboard_mode, [], []) \<and>
      device_detection_loop [quiet_sample (100 + 0.4), quiet_sample (100 + 0.6)]
          (keyboard_mode, [], [])
        = (keyboard_mode\<lparr>current_device := UNKNOWN\<rparr>,
           fst (notify_callbacks (device_changed_callbacks keyboard_mode) UNKNOWN ([], [])),
           snd (notify_callbacks (device_changed_callbacks keyboard_mode) UNKNOWN ([], []))
             @ [Device_changed UNKNOWN])"
    by (rule device_arbitration [THEN conjunct2, rule_format, OF h])
  then show ?thesis by (simp add: n)
qed



section \<open>The input manager's configuration path\<close>

lemma KeyboardProcessor_init_empty: "KeyboardProcessor_init (PDict []) = Inr default_processor"
  by (simp add: KeyboardProcessor_init_def init_key_states_def on_value_simps default_processor_def)

lemma keyboard_config_controls:
  assumes "keyboard_config cfg = Inr kc"
  shows "dict_get kc ''keyboard_controls'' (PDict []) = Inr (PDict [])"
  using assms
  by (auto simp: keyboard_config_def on_value_def split: sum.splits)

lemma KeyboardProcessor_init_controls:
  assumes "dict_get kc ''keyboard_controls'' (PDict []) = Inr (PDict [])"
  shows "KeyboardProcessor_init kc = Inr default_processor"
  using assms KeyboardProcessor_init_empty
  by (simp add: KeyboardProcessor_init_def on_value_simps)

lemma init_keyboard_support_processor:
  "keyboard_processor (init_keyboard_support self) = Some default_processor \<or>
   keyboard_processor (init_keyboard_support self) = keyboard_processor self"
proof (cases "keyboard_config (manager_config self)")
  case (Inl e)
  then show ?thesis by (simp add: init_keyboard_support_def on_value_simps)
next
  case (Inr kc)
  then show ?thesis
    using KeyboardProcessor_init_controls [OF keyboard_config_controls [OF Inr]]
    by (simp add: init_keyboard_support_def on_value_simps)
qed

lemma keyboard_config_dicts:
  assumes "dict_get cfg ''key_bindings'' default_bindings = Inr (PDict b)"
  shows "\<exists>kc. keyboard_config cfg = Inr kc"
  using assms by (cases cfg) (simp_all add: keyboard_config_def on_value_simps)

lemma init_keyboard_support_dicts:
  assumes "dict_get (manager_config self) ''key_bindings'' default_bindings = Inr (PDict b)"
  shows "keyboard_processor (init_keyboard_support self) = Some default_processor"
proof -
  obtain kc where kc: "keyboard_config (manager_config self) = Inr kc"
    using keyboard_config_dicts [OF assms] by blast
  show ?thesis
    using KeyboardProcessor_init_controls [OF keyboard_config_controls [OF kc]] kc
    by (simp add: init_keyboard_support_def on_value_simps)
qed

lemma update_key_bindings_processor:
  "keyboard_processor (update_key_bindings kb self) = Some default_processor \<or>
   keyboard_processor (update_key_bindings kb self) = keyboard_processor self"
proof (cases "dict_set (manager_config self) ''key_bindings'' kb")
  case (Inl e)
  then show ?thesis by (simp add: update_key_bindings_def)
next
  case (Inr cfg)
  then show ?thesis
    using init_keyboard_support_processor [of "self\<lparr>manager_config := cfg\<rparr>"]
    by (simp add: update_key_bindings_def Let_def)
qed

lemma update_key_bindings_dicts:
  assumes "manager_config self = PDict d"
  shows "keyboard_processor (update_key_bindings (PDict b) self) = Some default_processor"
proof -
  have "dict_get (PDict (AList.update ''key_bindings'' (PDict b) d)) ''key_bindings'' default_bindings
          = Inr (PDict b)"
    by (simp add: update_conv')
  then show ?thesis
    using init_keyboard_support_dicts
      [of "self\<lparr>manager_config := PDict (AList.update ''key_bindings'' (PDict b) d)\<rparr>" b]
    by (simp add: update_key_bindings_def Let_def assms)
qed

lemma set_config_processor:
  "keyboard_processor (set_config cfg self) = Some default_processor \<or>
   keyboard_processor (set_config cfg self) = keyboard_processor self"
  using init_keyboard_support_processor [of "self\<lparr>manager_config := cfg\<rparr>"]
  by (simp add: set_config_def)

lemma dom_default: "dom (key_states default_processor) = {KStr ''a'', KStr ''d'', KStr ''w'', KStr ''s''}"
  by (auto simp: default_processor_def)

text \<open>
  Claim C4.  The dict the input manager builds has the keys \<^verbatim>\<open>steering_keys\<close>,
  \<^verbatim>\<open>throttle_key\<close>, \<^verbatim>\<open>brake_key\<close>, \<^verbatim>\<open>sensitivity\<close> and \<^verbatim>\<open>smoothing\<close>, and the
  processor reads \<^verbatim>\<open>keyboard_controls\<close> only: whatever the main configuration and the
  key bindings are, the processor constructed is the one of the empty configuration,
  which tracks exactly \<^verbatim>\<open>a\<close>, \<^verbatim>\<open>d\<close>, \<^verbatim>\<open>w\<close>, \<^verbatim>\<open>s\<close> and shapes them with the
  defaults.  \<^verbatim>\<open>update_key_bindings\<close> and \<^verbatim>\<open>set_config\<close> leave the manager with that
  processor, or with the one it had when the initialisation raised; with a dict
  configuration and dict bindings the processor is always constructed.
\<close>

theorem configured_bindings_ignored:
  "(\<forall>cfg kc. keyboard_config cfg = Inr kc \<longrightarrow>
      dict_get kc ''keyboard_controls'' (PDict []) = Inr (PDict []) \<and>
      KeyboardProcessor_init kc = Inr default_processor) \<and>
   KeyboardProcessor_init (PDict []) = Inr default_processor \<and>
   config default_processor = PDict [] \<and>
   dom (key_states default_processor) = {KStr ''a'', KStr ''d'', KStr ''w'', KStr ''s''} \<and>
   (\<forall>key_bindings self.
      keyboard_processor (update_key_bindings key_bindings self) = Some default_processor \<or>
      keyboard_processor (update_key_bindings key_bindings self) = keyboard_processor self) \<and>
   (\<forall>cfg self.
      keyboard_processor (set_config cfg self) = Some default_processor \<or>
      keyboard_processor (set_config cfg self) = keyboard_processor self) \<and>
   (\<forall>bindings d self. manager_config self = PDict d \<longrightarrow>
      keyboard_processor (update_key_bindings (PDict bindings) self) = Some default_processor)"
proof (intro conjI allI impI)
  fix cfg kc assume kc: "keyboard_config cfg = Inr kc"
  show "dict_get kc ''keyboard_controls'' (PDict []) = Inr (PDict [])"
    by (rule keyboard_config_controls [OF kc])
  show "KeyboardProcessor_init kc = Inr default_processor"
    by (rule KeyboardProcessor_init_controls [OF keyboard_config_controls [OF kc]])
next
  show "KeyboardProcessor_init (PDict []) = Inr default_processor"
    by (rule KeyboardProcessor_init_empty)
next
  show "config default_processor = PDict []"
    by (simp add: default_processor_def)
next
  show "dom (key_states default_processor) = {KStr ''a'', KStr ''d'', KStr ''w'', KStr ''s''}"
    by (rule dom_default)
next
  fix key_bindings self
  show "keyboard_processor (update_key_bindings key_bindings self) = Some default_processor \<or>
      keyboard_processor (update_key_bindings key_bindings self) = keyboard_processor self"
    by (rule update_key_bindings_processor)
next
  fix cfg self
  show "keyboard_processor (set_config cfg self) = Some default_processor \<or>
      keyboard_processor (set_config cfg self) = keyboard_processor self"
    by (rule set_config_processor)
next
  fix bindings d and self :: manager assume "manager_config self = PDict d"
  then show "keyboard_processor (update_key_bindings (PDict bindings) self)
               = Some default_processor"
    by (rule update_key_bindings_dicts)
qed

theorem configured_bindings_ignored_witness:
  "keyboard_processor (update_key_bindings custom_bindings fresh_manager) = Some default_processor \<and>
   key_states default_processor (KStr ''j'') = None \<and>
   key_states default_processor (KStr ''a'') = Some KeyState_init"
proof -
  have h: "manager_config fresh_manager = PDict []"
    by (simp add: fresh_manager_def)
  have "keyboard_processor (update_key_bindings
          (PDict [(''steer_left'', PStr ''j''), (''steer_right'', PStr ''l''),
                  (''throttle'', PStr ''i''), (''brake'', PStr ''k'')]) fresh_manager)
        = Some default_processor"
    using configured_bindings_ignored h by blast
  then show ?thesis by (simp add: custom_bindings_def default_processor_def)
qed

section \<open>The bounds of the axes\<close>










lemma pressed_before_frame [simp]:
  "pressed_before t (self\<lparr>steering_value := v\<rparr>) = pressed_before t self"
  "pressed_before t (self\<lparr>throttle_value := v\<rparr>) = pressed_before t self"
  "pressed_before t (self\<lparr>brake_value := v\<rparr>) = pressed_before t self"
  by (simp_all add: pressed_before_def)











end
